theory Spec2Isabelle
  imports Main "HOL-Library.Word"
begin

section \<open>The App Service Hybrid Connection resource\<close>

text \<open>
  A shallow embedding of \<^verbatim>\<open>resource_arm_app_service_hybrid_connection.go\<close>:
  the schema validator of \<^verbatim>\<open>service_bus_namespace\<close> and the three lifecycle callbacks
  \<^verbatim>\<open>resourceArmAppServiceHybridConnectionCreateUpdate\<close>, \<^verbatim>\<open>...Read\<close> and
  \<^verbatim>\<open>...Delete\<close>.

  A Go pointer is an \<open>option\<close> (\<open>None\<close> is nil), a Go \<^verbatim>\<open>(result, err)\<close> pair is a pair
  whose second component is an \<open>option\<close> (\<open>None\<close> is a nil error), and a callback returns
  an \<open>outcome\<close> together with the state it leaves behind. Contexts, deadlines and the
  deferred \<^verbatim>\<open>cancel()\<close> calls carry no data the callbacks read and are left out.
\<close>

subsection \<open>Values of the SDK types the callbacks read and build\<close>

text \<open>\<^verbatim>\<open>*http.Response\<close>, of which only the status code is read.\<close>

record http_Response =
  StatusCode :: int

text \<open>
  \<^verbatim>\<open>autorest.Response\<close> is a struct whose only field is a \<^verbatim>\<open>*http.Response\<close>; it is
  identified with that pointer.
\<close>

type_synonym autorest_Response = "http_Response option"

record HybridConnectionProperties =
  ServiceBusNamespace :: "string option"
  RelayName :: "string option"
  RelayArmURI :: "string option"
  Hostname :: "string option"
  Port :: "32 word option"
  SendKeyName :: "string option"
  SendKeyValue :: "string option"
  ServiceBusSuffix :: "string option"

text \<open>
  \<^verbatim>\<open>web.HybridConnection\<close>: the embedded \<^verbatim>\<open>autorest.Response\<close>, the embedded pointer
  \<^verbatim>\<open>*HybridConnectionProperties\<close> (field \<open>Properties\<close>) and \<^verbatim>\<open>ID *string\<close>. The fields
  \<^verbatim>\<open>Name\<close>, \<^verbatim>\<open>Kind\<close> and \<^verbatim>\<open>Type\<close> are never read or written by this file.
\<close>

record HybridConnection =
  Response :: autorest_Response
  Properties :: "HybridConnectionProperties option"
  ID :: "string option"

text \<open>\<^verbatim>\<open>servicebus.AccessKeys\<close>, of which only \<^verbatim>\<open>PrimaryKey *string\<close> is read.\<close>

record AccessKeys =
  PrimaryKey :: "string option"

text \<open>The result of \<^verbatim>\<open>relay.ParseHybridConnectionID\<close>.\<close>

record HybridConnectionResourceID =
  NamespaceName :: string
  Name :: string

text \<open>The result of \<^verbatim>\<open>azure.ParseAzureResourceID\<close>: the resource group and the path map.\<close>

record ResourceID =
  ResourceGroup :: string
  Path :: "string \<rightharpoonup> string"

text \<open>Indexing a Go \<^verbatim>\<open>map[string]string\<close>: a missing key reads as the empty string.\<close>

definition path_index :: "(string \<rightharpoonup> string) \<Rightarrow> string \<Rightarrow> string" where
  "path_index p k = (case p k of None \<Rightarrow> [] | Some v \<Rightarrow> v)"

subsection \<open>Errors and outcomes\<close>

text \<open>The text of an error value made outside this file (an SDK client or a parser).\<close>

type_synonym go_error = string

text \<open>
  The error values the callbacks return, one constructor for each \<^verbatim>\<open>return\<close> of an
  error in the source, carrying the arguments of its format string in their order:
  \<open>Foreign\<close> is \<^verbatim>\<open>return err\<close> (lines 163 and 213), then lines 114, 123, 128, 149, 176
  and 225.
\<close>

datatype error =
    Foreign go_error
  | Error_parsing_relay_ID string go_error
  | Error_checking_for_presence string string string string go_error
  | ImportAsExistsError string string
  | Error_creating string string go_error
  | Error_making_Read_request string string string go_error
  | Error_deleting string string string go_error

text \<open>
  How a callback ends: \<^verbatim>\<open>return nil\<close>, \<^verbatim>\<open>return\<close> of an error, or the run-time panic
  of dereferencing a nil pointer.
\<close>

datatype outcome = Return_nil | Return_err error | Panic_nil_dereference

subsection \<open>The resource data, the remote side and the state\<close>

text \<open>What \<^verbatim>\<open>d.Get\<close> yields: a Go \<^verbatim>\<open>string\<close> or a Go \<^verbatim>\<open>int\<close> (64 bits).\<close>

datatype "value" = VString string | VInt "64 word"

datatype api_call =
    Call_GetHybridConnection string string string string
  | Call_CreateOrUpdateHybridConnection string string string string HybridConnection
  | Call_DeleteHybridConnection string string string string
  | Call_ListKeys string string string

text \<open>The one line this file writes to the log (line 198).\<close>

datatype log_line = WARN_Unable_to_List_default_keys string string go_error

text \<open>
  The state a callback works on. \<open>d_Id\<close>, \<open>d_attrs\<close> and \<open>d_IsNewResource\<close> are the
  \<^verbatim>\<open>*schema.ResourceData\<close> \<^verbatim>\<open>d\<close>; \<open>remote\<close> is the state of the two remote services, of
  a type the model leaves open; \<open>calls\<close> records every remote call made, in order;
  \<open>log_lines\<close> is the log.
\<close>

record 'w state =
  d_Id :: string
  d_attrs :: "string \<rightharpoonup> value"
  d_IsNewResource :: bool
  remote :: 'w
  calls :: "api_call list"
  log_lines :: "log_line list"

text \<open>
  What \<^verbatim>\<open>meta\<close> and the imported packages provide. The two parsers and the feature
  switch are code outside this file and are parameters. Each client method takes the
  remote state and returns its Go result pair with the remote state it leaves.
\<close>

record 'w meta =
  ShouldResourcesBeImported :: bool
  ParseHybridConnectionID :: "string \<Rightarrow> go_error + HybridConnectionResourceID"
  ParseAzureResourceID :: "string \<Rightarrow> go_error + ResourceID"
  GetHybridConnection ::
    "'w \<Rightarrow> string \<Rightarrow> string \<Rightarrow> string \<Rightarrow> string \<Rightarrow> (HybridConnection \<times> go_error option) \<times> 'w"
  CreateOrUpdateHybridConnection ::
    "'w \<Rightarrow> string \<Rightarrow> string \<Rightarrow> string \<Rightarrow> string \<Rightarrow> HybridConnection
       \<Rightarrow> (HybridConnection \<times> go_error option) \<times> 'w"
  DeleteHybridConnection ::
    "'w \<Rightarrow> string \<Rightarrow> string \<Rightarrow> string \<Rightarrow> string \<Rightarrow> (autorest_Response \<times> go_error option) \<times> 'w"
  ListKeys ::
    "'w \<Rightarrow> string \<Rightarrow> string \<Rightarrow> string \<Rightarrow> (AccessKeys \<times> go_error option) \<times> 'w"

subsection \<open>The methods of the resource data\<close>

text \<open>
  \<^verbatim>\<open>d.Get(k).(string)\<close> and \<^verbatim>\<open>d.Get(k).(int)\<close>: the schema fixes the type of each key,
  and an unset key reads as the zero value of its type.
\<close>

definition d_Get_string :: "'w state \<Rightarrow> string \<Rightarrow> string" where
  "d_Get_string s k = (case d_attrs s k of Some (VString v) \<Rightarrow> v | _ \<Rightarrow> [])"

definition d_Get_int :: "'w state \<Rightarrow> string \<Rightarrow> 64 word" where
  "d_Get_int s k = (case d_attrs s k of Some (VInt n) \<Rightarrow> n | _ \<Rightarrow> 0)"

text \<open>
  \<^verbatim>\<open>d.Set(k, v)\<close>: the source passes strings and pointers; a nil pointer unsets the key,
  any other pointer stores the value it points to.
\<close>

definition d_Set :: "string \<Rightarrow> value option \<Rightarrow> 'w state \<Rightarrow> 'w state" where
  "d_Set k v s = s\<lparr>d_attrs := (d_attrs s)(k := v)\<rparr>"

definition d_SetId :: "string \<Rightarrow> 'w state \<Rightarrow> 'w state" where
  "d_SetId v s = s\<lparr>d_Id := v\<rparr>"

subsection \<open>Remote calls\<close>

text \<open>
  A call of a client method: the remote state moves on and the call is recorded.
\<close>

definition call_GetHybridConnection ::
  "'w meta \<Rightarrow> 'w state \<Rightarrow> string \<Rightarrow> string \<Rightarrow> string \<Rightarrow> string
     \<Rightarrow> (HybridConnection \<times> go_error option) \<times> 'w state" where
  "call_GetHybridConnection m s resourceGroup name namespaceName relayName =
     (case GetHybridConnection m (remote s) resourceGroup name namespaceName relayName of
        (r, w) \<Rightarrow>
          (r, s\<lparr>remote := w,
                calls := calls s @
                  [Call_GetHybridConnection resourceGroup name namespaceName relayName]\<rparr>))"

definition call_CreateOrUpdateHybridConnection ::
  "'w meta \<Rightarrow> 'w state \<Rightarrow> string \<Rightarrow> string \<Rightarrow> string \<Rightarrow> string \<Rightarrow> HybridConnection
     \<Rightarrow> (HybridConnection \<times> go_error option) \<times> 'w state" where
  "call_CreateOrUpdateHybridConnection m s resourceGroup name namespaceName relayName envelope =
     (case CreateOrUpdateHybridConnection m (remote s) resourceGroup name namespaceName
             relayName envelope of
        (r, w) \<Rightarrow>
          (r, s\<lparr>remote := w,
                calls := calls s @
                  [Call_CreateOrUpdateHybridConnection resourceGroup name namespaceName
                     relayName envelope]\<rparr>))"

definition call_DeleteHybridConnection ::
  "'w meta \<Rightarrow> 'w state \<Rightarrow> string \<Rightarrow> string \<Rightarrow> string \<Rightarrow> string
     \<Rightarrow> (autorest_Response \<times> go_error option) \<times> 'w state" where
  "call_DeleteHybridConnection m s resourceGroup name namespaceName relayName =
     (case DeleteHybridConnection m (remote s) resourceGroup name namespaceName relayName of
        (r, w) \<Rightarrow>
          (r, s\<lparr>remote := w,
                calls := calls s @
                  [Call_DeleteHybridConnection resourceGroup name namespaceName relayName]\<rparr>))"

definition call_ListKeys ::
  "'w meta \<Rightarrow> 'w state \<Rightarrow> string \<Rightarrow> string \<Rightarrow> string
     \<Rightarrow> (AccessKeys \<times> go_error option) \<times> 'w state" where
  "call_ListKeys m s resourceGroup namespaceName keyName =
     (case ListKeys m (remote s) resourceGroup namespaceName keyName of
        (r, w) \<Rightarrow>
          (r, s\<lparr>remote := w,
                calls := calls s @ [Call_ListKeys resourceGroup namespaceName keyName]\<rparr>))"

definition log_Printf :: "log_line \<Rightarrow> 'w state \<Rightarrow> 'w state" where
  "log_Printf l s = s\<lparr>log_lines := log_lines s @ [l]\<rparr>"

subsection \<open>Helpers of other packages\<close>

text \<open>
  Modelled from the spec: \<^verbatim>\<open>utils.ResponseWasNotFound\<close> is not in the source file. The
  spec's "the response indicates not found" is read as: an HTTP response is present and
  its status code is 404.
\<close>

definition ResponseWasNotFound :: "autorest_Response \<Rightarrow> bool" where
  "ResponseWasNotFound resp =
     (case resp of None \<Rightarrow> False | Some r \<Rightarrow> StatusCode r = 404)"

text \<open>
  Modelled from the spec: \<^verbatim>\<open>response.WasNotFound\<close> is not in the source file. It takes
  the \<^verbatim>\<open>*http.Response\<close> and is read like \<open>ResponseWasNotFound\<close>.
\<close>

definition WasNotFound :: "http_Response option \<Rightarrow> bool" where
  "WasNotFound resp =
     (case resp of None \<Rightarrow> False | Some r \<Rightarrow> StatusCode r = 404)"

subsection \<open>The validator of \<^verbatim>\<open>service_bus_namespace\<close> (lines 67 to 74)\<close>

text \<open>
  The pattern of line 71 is a sequence of character classes, each with the bounds of
  its repetition, between \<^verbatim>\<open>^\<close> and \<^verbatim>\<open>$\<close>; without the multi-line flag these two match
  only at the start and at the end of the text, so the text matches when the whole of
  it splits into one run for each class, of a length within the bounds. A string is
  a list of bytes; every class of the pattern holds ASCII characters only.
\<close>

datatype class_item = Single char | Range char char

fun in_item :: "class_item \<Rightarrow> char \<Rightarrow> bool" where
  "in_item (Single x) c = (c = x)"
| "in_item (Range lo hi) c =
     ((of_char lo :: nat) \<le> of_char c \<and> (of_char c :: nat) \<le> of_char hi)"

definition in_class :: "class_item list \<Rightarrow> char \<Rightarrow> bool" where
  "in_class items c = list_ex (\<lambda>i. in_item i c) items"

datatype atom = Atom "class_item list" nat nat

fun match_atoms :: "atom list \<Rightarrow> string \<Rightarrow> bool" where
  "match_atoms [] s = (s = [])"
| "match_atoms (Atom cls lo hi # rest) s =
     list_ex (\<lambda>n. n \<le> length s \<and> list_all (in_class cls) (take n s)
                  \<and> match_atoms rest (drop n s)) [lo..<Suc hi]"

datatype regexp = Anchored "atom list"

fun MatchString :: "regexp \<Rightarrow> string \<Rightarrow> bool" where
  "MatchString (Anchored atoms) s = match_atoms atoms s"

text \<open>\<^verbatim>\<open>^[a-zA-Z][-a-zA-Z0-9]{0,100}[a-zA-Z0-9]$\<close>\<close>

definition service_bus_namespace_regexp :: regexp where
  "service_bus_namespace_regexp =
     Anchored
       [Atom [Range CHR ''a'' CHR ''z'', Range CHR ''A'' CHR ''Z''] 1 1,
        Atom [Single CHR ''-'', Range CHR ''a'' CHR ''z'', Range CHR ''A'' CHR ''Z'',
              Range CHR ''0'' CHR ''9''] 0 100,
        Atom [Range CHR ''a'' CHR ''z'', Range CHR ''A'' CHR ''Z'', Range CHR ''0'' CHR ''9''] 1 1]"

text \<open>The errors a \<^verbatim>\<open>ValidateFunc\<close> built by \<^verbatim>\<open>validation.StringMatch\<close> reports.\<close>

datatype validation_error =
    Expected_type_to_be_string string
  | Invalid_value_for string string
  | Expected_value_to_match string regexp

text \<open>
  Modelled from the spec: \<^verbatim>\<open>validation.StringMatch\<close> is not in the source file. The spec
  has a value of the field accepted exactly when it matches the pattern; the validator
  is read as returning no warning, and one error (with the message, when one is given)
  for a value that is not a string or does not match.
\<close>

definition StringMatch ::
  "regexp \<Rightarrow> string \<Rightarrow> value \<Rightarrow> string \<Rightarrow> string list \<times> validation_error list" where
  "StringMatch r message i k =
     (case i of
        VInt _ \<Rightarrow> ([], [Expected_type_to_be_string k])
      | VString v \<Rightarrow>
          if \<not> MatchString r v
          then (if message \<noteq> [] then ([], [Invalid_value_for k message])
                else ([], [Expected_value_to_match k r]))
          else ([], []))"

definition service_bus_namespace_ValidateFunc ::
  "value \<Rightarrow> string \<Rightarrow> string list \<times> validation_error list" where
  "service_bus_namespace_ValidateFunc =
     StringMatch service_bus_namespace_regexp
       ''The namespace can contain only letters, numbers, and hyphens. The namespace must start with a letter, and it must end with a letter or number.''"

text \<open>
  The same pattern in the words of the spec: starts with a letter, contains only
  letters, digits and hyphens, ends with a letter or a digit, length 2 to 102.
\<close>

definition spec_letter :: "char \<Rightarrow> bool" where
  "spec_letter c =
     ((of_char CHR ''a'' :: nat) \<le> of_char c \<and> (of_char c :: nat) \<le> of_char CHR ''z''
      \<or> (of_char CHR ''A'' :: nat) \<le> of_char c \<and> (of_char c :: nat) \<le> of_char CHR ''Z'')"

definition spec_digit :: "char \<Rightarrow> bool" where
  "spec_digit c =
     ((of_char CHR ''0'' :: nat) \<le> of_char c \<and> (of_char c :: nat) \<le> of_char CHR ''9'')"

definition spec_service_bus_namespace :: "string \<Rightarrow> bool" where
  "spec_service_bus_namespace s =
     (s \<noteq> [] \<and> spec_letter (hd s)
      \<and> list_all (\<lambda>c. spec_letter c \<or> spec_digit c \<or> c = CHR ''-'') s
      \<and> (spec_letter (last s) \<or> spec_digit (last s))
      \<and> 2 \<le> length s \<and> length s \<le> 102)"

subsection \<open>Read (lines 156 to 204)\<close>

definition Read :: "'w meta \<Rightarrow> 'w state \<Rightarrow> outcome \<times> 'w state" where
  "Read m s =
     (case ParseAzureResourceID m (d_Id s) of
        Inl err \<Rightarrow> (Return_err (Foreign err), s)
      | Inr id' \<Rightarrow>
          let resourceGroup = ResourceGroup id';
              name = path_index (Path id') ''sites'';
              namespaceName = path_index (Path id') ''hybridConnectionNamespaces'';
              relayName = path_index (Path id') ''relays''
          in
          (case call_GetHybridConnection m s resourceGroup name namespaceName relayName of
             ((resp, Some err), s1) \<Rightarrow>
               if ResponseWasNotFound (Response resp)
               then (Return_nil, d_SetId [] s1)
               else (Return_err
                       (Error_making_Read_request name namespaceName resourceGroup err), s1)
           | ((resp, None), s1) \<Rightarrow>
               let s2 = d_Set ''app_service_name'' (Some (VString name)) s1;
                   s3 = d_Set ''resource_group_name'' (Some (VString resourceGroup)) s2;
                   s4 = d_Set ''namespace_name'' (Some (VString namespaceName)) s3;
                   s5 = d_Set ''relay_name'' (Some (VString relayName)) s4;
                   s6 = (case Properties resp of
                           None \<Rightarrow> s5
                         | Some props \<Rightarrow>
                             let t1 = d_Set ''port''
                                        (map_option (\<lambda>p. VInt (scast p)) (Port props)) s5;
                                 t2 = d_Set ''service_bus_namespace''
                                        (map_option VString (ServiceBusNamespace props)) t1;
                                 t3 = d_Set ''send_key_name''
                                        (map_option VString (SendKeyName props)) t2;
                                 t4 = d_Set ''service_bus_suffix''
                                        (map_option VString (ServiceBusSuffix props)) t3;
                                 t5 = d_Set ''relay_id''
                                        (map_option VString (RelayArmURI props)) t4
                             in d_Set ''hostname'' (map_option VString (Hostname props)) t5)
               in
               (case Properties resp of
                  None \<Rightarrow> (Panic_nil_dereference, s6)
                | Some props \<Rightarrow>
                    (case ServiceBusNamespace props of
                       None \<Rightarrow> (Panic_nil_dereference, s6)
                     | Some serviceBusNamespace \<Rightarrow>
                         (case SendKeyName props of
                            None \<Rightarrow> (Panic_nil_dereference, s6)
                          | Some sendKeyName \<Rightarrow>
                              (case call_ListKeys m s6 resourceGroup serviceBusNamespace
                                      sendKeyName of
                                 ((accessKeys, Some err), s7) \<Rightarrow>
                                   (Return_nil,
                                    log_Printf
                                      (WARN_Unable_to_List_default_keys name resourceGroup err)
                                      s7)
                               | ((accessKeys, None), s7) \<Rightarrow>
                                   (Return_nil,
                                    d_Set ''send_key_value''
                                      (map_option VString (PrimaryKey accessKeys)) s7)))))))"

subsection \<open>Delete (lines 206 to 229)\<close>

definition Delete :: "'w meta \<Rightarrow> 'w state \<Rightarrow> outcome \<times> 'w state" where
  "Delete m s =
     (case ParseAzureResourceID m (d_Id s) of
        Inl err \<Rightarrow> (Return_err (Foreign err), s)
      | Inr id' \<Rightarrow>
          let resourceGroup = ResourceGroup id';
              name = path_index (Path id') ''sites'';
              namespaceName = path_index (Path id') ''hybridConnectionNamespaces'';
              relayName = path_index (Path id') ''relays''
          in
          (case call_DeleteHybridConnection m s resourceGroup name namespaceName relayName of
             ((resp, Some err), s1) \<Rightarrow>
               if \<not> WasNotFound resp
               then (Return_nil, s1)
               else (Return_err (Error_deleting name resourceGroup relayName err), s1)
           | ((resp, None), s1) \<Rightarrow> (Return_nil, s1)))"

subsection \<open>CreateUpdate (lines 104 to 154)\<close>

text \<open>
  The block of lines 119 to 130. It yields the error the callback returns from inside the
  block, or \<open>None\<close> when control leaves the block at its end, and the state at that
  point.
\<close>

definition import_check ::
  "'w meta \<Rightarrow> 'w state \<Rightarrow> string \<Rightarrow> string \<Rightarrow> string \<Rightarrow> string \<Rightarrow> error option \<times> 'w state" where
  "import_check m s resourceGroup name namespaceName relayName =
     (if ShouldResourcesBeImported m \<and> d_IsNewResource s then
        (case call_GetHybridConnection m s resourceGroup name namespaceName relayName of
           ((existing, err), s1) \<Rightarrow>
             let lines_127_to_129 =
                   (case ID existing of
                      None \<Rightarrow> (None, s1)
                    | Some existing_ID \<Rightarrow>
                        if existing_ID \<noteq> []
                        then (Some (ImportAsExistsError
                                      ''azurerm_app_service_hybrid_connection'' existing_ID), s1)
                        else (None, s1))
             in
             (case err of
                Some e \<Rightarrow>
                  if \<not> ResponseWasNotFound (Response existing)
                  then (Some (Error_checking_for_presence name resourceGroup namespaceName
                                relayName e), s1)
                  else lines_127_to_129
              | None \<Rightarrow> lines_127_to_129))
      else (None, s))"

text \<open>Lines 132 to 145: the request payload, built from the declared fields.\<close>

definition connectionEnvelope :: "'w state \<Rightarrow> string \<Rightarrow> string \<Rightarrow> HybridConnection" where
  "connectionEnvelope s relayName relayArmURI =
     (let port = (ucast (d_Get_int s ''port'') :: 32 word)
      in \<lparr>Response = None,
          Properties = Some
            \<lparr>ServiceBusNamespace = Some (d_Get_string s ''service_bus_namespace''),
             RelayName = Some relayName,
             RelayArmURI = Some relayArmURI,
             Hostname = Some (d_Get_string s ''hostname''),
             Port = Some port,
             SendKeyName = Some (d_Get_string s ''send_key_name''),
             SendKeyValue = Some (d_Get_string s ''send_key_value''),
             ServiceBusSuffix = Some (d_Get_string s ''service_bus_suffix'')\<rparr>,
          ID = None\<rparr>)"

definition CreateUpdate :: "'w meta \<Rightarrow> 'w state \<Rightarrow> outcome \<times> 'w state" where
  "CreateUpdate m s =
     (let name = d_Get_string s ''app_service_name'';
          resourceGroup = d_Get_string s ''resource_group_name'';
          relayArmURI = d_Get_string s ''relay_id''
      in
      (case ParseHybridConnectionID m relayArmURI of
         Inl err \<Rightarrow> (Return_err (Error_parsing_relay_ID relayArmURI err), s)
       | Inr relayId \<Rightarrow>
           let namespaceName = NamespaceName relayId;
               relayName = Name relayId
           in
           (case import_check m s resourceGroup name namespaceName relayName of
              (Some failure, s1) \<Rightarrow> (Return_err failure, s1)
            | (None, s1) \<Rightarrow>
                (case call_CreateOrUpdateHybridConnection m s1 resourceGroup name namespaceName
                        relayName (connectionEnvelope s1 relayName relayArmURI) of
                   ((hybridConnection, Some err), s2) \<Rightarrow>
                     (Return_err (Error_creating name resourceGroup err), s2)
                 | ((hybridConnection, None), s2) \<Rightarrow>
                     (case ID hybridConnection of
                        None \<Rightarrow> (Panic_nil_dereference, s2)
                      | Some hybridConnection_ID \<Rightarrow>
                          Read m (d_SetId hybridConnection_ID s2))))))"

subsection \<open>Validation before the callback\<close>

text \<open>
  Modelled from the spec: the schema engine that runs the validators and invokes the
  callbacks is not in the source file. The spec has a value that fails the pattern
  "rejected before any remote call": the engine is read as running the \<^verbatim>\<open>ValidateFunc\<close>
  of \<^verbatim>\<open>service_bus_namespace\<close> on the declared value and invoking CreateUpdate only when
  it reports no error; a rejected configuration leaves the state as it is.
\<close>

datatype 'w applied = Rejected "validation_error list" "'w state" | Invoked "outcome \<times> 'w state"

definition validated_CreateUpdate :: "'w meta \<Rightarrow> 'w state \<Rightarrow> 'w applied" where
  "validated_CreateUpdate m s =
     (case snd (service_bus_namespace_ValidateFunc
                  (VString (d_Get_string s ''service_bus_namespace''))
                  ''service_bus_namespace'') of
        [] \<Rightarrow> Invoked (CreateUpdate m s)
      | errs \<Rightarrow> Rejected errs s)"

section \<open>An example environment\<close>

text \<open>
  A small environment on which the callbacks can be run: the remote state counts the
  calls served, each client method answers with a fixed result (the get with one that
  may depend on the count), and each parser knows one identifier.
\<close>

definition example_id :: string where
  "example_id = ''/subscriptions/sub1/resourceGroups/rg1/providers/Microsoft.Web/sites/site1/hybridConnectionNamespaces/ns1/relays/relay1''"

definition example_relay_id :: string where
  "example_relay_id = ''/subscriptions/sub1/resourceGroups/rg1/providers/Microsoft.Relay/namespaces/ns1/hybridConnections/relay1''"

definition example_ResourceID :: ResourceID where
  "example_ResourceID =
     \<lparr>ResourceGroup = ''rg1'',
      Path = map_of [(''sites'', ''site1''),
                     (''hybridConnectionNamespaces'', ''ns1''),
                     (''relays'', ''relay1'')]\<rparr>"

definition example_ParseAzureResourceID :: "string \<Rightarrow> go_error + ResourceID" where
  "example_ParseAzureResourceID i =
     (if i = example_id then Inr example_ResourceID else Inl ''Cannot parse Azure ID'')"

definition example_relayId :: HybridConnectionResourceID where
  "example_relayId = \<lparr>NamespaceName = ''ns1'', Name = ''relay1''\<rparr>"

definition example_ParseHybridConnectionID ::
  "string \<Rightarrow> go_error + HybridConnectionResourceID" where
  "example_ParseHybridConnectionID i =
     (if i = example_relay_id then Inr example_relayId else Inl ''Cannot parse relay ID'')"

definition example_meta ::
  "bool \<Rightarrow> (nat \<Rightarrow> HybridConnection \<times> go_error option)
     \<Rightarrow> HybridConnection \<times> go_error option
     \<Rightarrow> autorest_Response \<times> go_error option
     \<Rightarrow> AccessKeys \<times> go_error option \<Rightarrow> nat meta" where
  "example_meta imported got upserted deleted keys =
     \<lparr>ShouldResourcesBeImported = imported,
      ParseHybridConnectionID = example_ParseHybridConnectionID,
      ParseAzureResourceID = example_ParseAzureResourceID,
      GetHybridConnection = (\<lambda>w _ _ _ _. (got w, Suc w)),
      CreateOrUpdateHybridConnection = (\<lambda>w _ _ _ _ _. (upserted, Suc w)),
      DeleteHybridConnection = (\<lambda>w _ _ _ _. (deleted, Suc w)),
      ListKeys = (\<lambda>w _ _ _. (keys, Suc w))\<rparr>"

definition example_state :: "string \<Rightarrow> string \<Rightarrow> bool \<Rightarrow> nat state" where
  "example_state i relay new =
     \<lparr>d_Id = i,
      d_attrs = map_of [(''app_service_name'', VString ''site1''),
                        (''resource_group_name'', VString ''rg1''),
                        (''relay_id'', VString relay),
                        (''hostname'', VString ''h.example.net''),
                        (''port'', VInt 443),
                        (''service_bus_namespace'', VString ''ns1''),
                        (''service_bus_suffix'', VString ''.servicebus.windows.net''),
                        (''send_key_name'', VString ''key1''),
                        (''send_key_value'', VString ''secret'')],
      d_IsNewResource = new,
      remote = 0,
      calls = [],
      log_lines = []\<rparr>"

definition example_properties :: HybridConnectionProperties where
  "example_properties =
     \<lparr>ServiceBusNamespace = Some ''ns1'',
      RelayName = Some ''relay1'',
      RelayArmURI = Some example_relay_id,
      Hostname = Some ''h.example.net'',
      Port = Some 443,
      SendKeyName = Some ''key1'',
      SendKeyValue = None,
      ServiceBusSuffix = Some ''.servicebus.windows.net''\<rparr>"

definition found :: "HybridConnection \<times> go_error option" where
  "found = (\<lparr>Response = Some \<lparr>StatusCode = 200\<rparr>,
             Properties = Some example_properties,
             ID = Some example_id\<rparr>, None)"

definition failed_with :: "int \<Rightarrow> HybridConnection \<times> go_error option" where
  "failed_with code =
     (\<lparr>Response = Some \<lparr>StatusCode = code\<rparr>, Properties = None, ID = None\<rparr>,
      Some ''web.AppsClient: responded with an error'')"

text \<open>A resource that is already stored, and environments that differ in one answer.\<close>

definition stored :: "nat state" where
  "stored = example_state example_id example_relay_id False"

definition meta_get :: "HybridConnection \<times> go_error option \<Rightarrow> nat meta" where
  "meta_get got =
     example_meta False (\<lambda>_. got) found (None, None) (\<lparr>PrimaryKey = Some ''primary''\<rparr>, None)"

definition meta_keys :: "AccessKeys \<times> go_error option \<Rightarrow> nat meta" where
  "meta_keys keys = example_meta False (\<lambda>_. found) found (None, None) keys"

definition meta_delete :: "autorest_Response \<times> go_error option \<Rightarrow> nat meta" where
  "meta_delete deleted =
     example_meta False (\<lambda>_. found) found deleted (\<lparr>PrimaryKey = Some ''primary''\<rparr>, None)"

text \<open>
  A resource that has just been declared, with import detection switched on; a get that
  finds nothing on the first call served and the object afterwards.
\<close>

definition declared :: "nat state" where
  "declared = example_state [] example_relay_id True"

definition meta_import ::
  "(nat \<Rightarrow> HybridConnection \<times> go_error option) \<Rightarrow> HybridConnection \<times> go_error option
     \<Rightarrow> nat meta" where
  "meta_import got upserted =
     example_meta True got upserted (None, None) (\<lparr>PrimaryKey = Some ''primary''\<rparr>, None)"

definition absent_then_found :: "nat \<Rightarrow> HybridConnection \<times> go_error option" where
  "absent_then_found w = (if w = 0 then failed_with 404 else found)"

text \<open>A declared resource whose namespace starts with a digit and holds an underscore.\<close>

definition misnamed :: "nat state" where
  "misnamed = d_Set ''service_bus_namespace'' (Some (VString ''1_ns'')) declared"

text \<open>An upsert answer that reports no error and carries no identifier.\<close>

definition upserted_without_ID :: "HybridConnection \<times> go_error option" where
  "upserted_without_ID =
     (\<lparr>Response = Some \<lparr>StatusCode = 200\<rparr>,
       Properties = Some example_properties,
       ID = None\<rparr>, None)"

text \<open>The state after one more call has been served.\<close>

definition after_call :: "api_call \<Rightarrow> nat state \<Rightarrow> nat state" where
  "after_call c s = s\<lparr>remote := Suc (remote s), calls := calls s @ [c]\<rparr>"

section \<open>Properties\<close>

lemmas example_defs =
  example_meta_def example_state_def example_ParseAzureResourceID_def
  example_ParseHybridConnectionID_def example_id_def example_relay_id_def
  example_properties_def found_def failed_with_def after_call_def
  example_ResourceID_def stored_def meta_keys_def meta_get_def meta_delete_def
  declared_def meta_import_def absent_then_found_def example_relayId_def
  upserted_without_ID_def

lemmas call_defs =
  call_GetHybridConnection_def call_CreateOrUpdateHybridConnection_def
  call_DeleteHybridConnection_def call_ListKeys_def path_index_def
  ResponseWasNotFound_def WasNotFound_def d_SetId_def d_Set_def d_Get_string_def
  d_Get_int_def log_Printf_def

subsection \<open>What a remote call leaves alone\<close>

lemma call_GetHybridConnection_keeps_d:
  assumes "call_GetHybridConnection m s rg n ns r = (res, s1)"
  shows "d_Id s1 = d_Id s" "d_attrs s1 = d_attrs s" "d_IsNewResource s1 = d_IsNewResource s"
    "log_lines s1 = log_lines s"
    "calls s1 = calls s @ [Call_GetHybridConnection rg n ns r]"
  using assms by (auto simp: call_GetHybridConnection_def split: prod.splits)

lemma call_CreateOrUpdateHybridConnection_keeps_d:
  assumes "call_CreateOrUpdateHybridConnection m s rg n ns r env = (res, s1)"
  shows "d_Id s1 = d_Id s" "d_attrs s1 = d_attrs s"
    "calls s1 = calls s @ [Call_CreateOrUpdateHybridConnection rg n ns r env]"
  using assms by (auto simp: call_CreateOrUpdateHybridConnection_def split: prod.splits)

lemma import_check_keeps_d:
  assumes "import_check m s rg n ns r = (res, s1)"
  shows "d_Id s1 = d_Id s" "d_attrs s1 = d_attrs s"
  using assms
  by (auto simp: import_check_def call_GetHybridConnection_def Let_def
      split: if_splits prod.splits option.splits)

lemma d_Set_calls [simp]: "calls (d_Set k v s) = calls s"
  by (simp add: d_Set_def)

lemma d_Set_remote [simp]: "remote (d_Set k v s) = remote s"
  by (simp add: d_Set_def)

text \<open>Read only ever adds to the record of calls.\<close>

lemma Read_extends_calls: "\<exists>rest. calls (snd (Read m s)) = calls s @ rest"
proof (cases "ParseAzureResourceID m (d_Id s)")
  case (Inl e)
  then show ?thesis by (simp add: Read_def)
next
  case (Inr rid)
  obtain resp err s1 where get:
    "call_GetHybridConnection m s (ResourceGroup rid) (path_index (Path rid) ''sites'')
       (path_index (Path rid) ''hybridConnectionNamespaces'')
       (path_index (Path rid) ''relays'') = ((resp, err), s1)"
    by (metis surj_pair)
  have c1: "calls s1 = calls s @ [Call_GetHybridConnection (ResourceGroup rid)
              (path_index (Path rid) ''sites'')
              (path_index (Path rid) ''hybridConnectionNamespaces'')
              (path_index (Path rid) ''relays'')]"
    using call_GetHybridConnection_keeps_d(5) [OF get] .
  show ?thesis
  proof (cases err)
    case (Some e)
    with Inr get c1 show ?thesis
      by (simp add: Read_def Let_def d_SetId_def)
  next
    case None
    show ?thesis
    proof (cases "Properties resp")
      case None
      with Inr get c1 \<open>err = None\<close> show ?thesis
        by (simp add: Read_def Let_def)
    next
      case (Some props)
      with Inr get c1 \<open>err = None\<close> show ?thesis
        by (auto simp: Read_def Let_def call_ListKeys_def log_Printf_def
            split: option.splits prod.splits)
    qed
  qed
qed

subsection \<open>Identifiers and references that do not parse\<close>

text \<open>
  C9. When the persisted identifier does not parse, Read and Delete both return the
  parser's error, and the state they leave is the state they were given: no remote call
  has been made.
\<close>

theorem malformed_identifier_fails_before_any_call:
  assumes "ParseAzureResourceID m (d_Id s) = Inl e"
  shows "Read m s = (Return_err (Foreign e), s) \<and> Delete m s = (Return_err (Foreign e), s)"
  using assms by (simp add: Read_def Delete_def)

theorem malformed_identifier_fails_before_any_call_witness:
  "ParseAzureResourceID (meta_get found) (d_Id (example_state ''site1'' example_relay_id False))
     = Inl ''Cannot parse Azure ID''
   \<and> Read (meta_get found) (example_state ''site1'' example_relay_id False)
      = (Return_err (Foreign ''Cannot parse Azure ID''),
         example_state ''site1'' example_relay_id False)
   \<and> Delete (meta_get found) (example_state ''site1'' example_relay_id False)
      = (Return_err (Foreign ''Cannot parse Azure ID''),
         example_state ''site1'' example_relay_id False)"
  using malformed_identifier_fails_before_any_call
    [of "meta_get found" "example_state ''site1'' example_relay_id False"
        "''Cannot parse Azure ID''"]
  by (simp add: example_defs)

text \<open>
  C6. When \<^verbatim>\<open>relay_id\<close> does not parse, CreateUpdate returns the error of line 114, and
  the state it leaves is the state it was given: no remote call has been made.
\<close>

theorem invalid_relay_reference_fails_before_any_call:
  assumes "ParseHybridConnectionID m (d_Get_string s ''relay_id'') = Inl e"
  shows "CreateUpdate m s
         = (Return_err (Error_parsing_relay_ID (d_Get_string s ''relay_id'') e), s)"
  using assms by (simp add: CreateUpdate_def)

theorem invalid_relay_reference_fails_before_any_call_witness:
  "ParseHybridConnectionID (meta_get found)
     (d_Get_string (example_state [] ''relay1'' True) ''relay_id'') = Inl ''Cannot parse relay ID''
   \<and> CreateUpdate (meta_get found) (example_state [] ''relay1'' True)
      = (Return_err (Error_parsing_relay_ID ''relay1'' ''Cannot parse relay ID''),
         example_state [] ''relay1'' True)"
  using invalid_relay_reference_fails_before_any_call
    [of "meta_get found" "example_state [] ''relay1'' True" "''Cannot parse relay ID''"]
  by (simp add: example_defs d_Get_string_def)

subsection \<open>Read\<close>

text \<open>
  C2. When the identifier parses and the get returns an error: if the response was
  not found, Read sets the identifier to the empty string and returns nil; otherwise
  Read returns the error of line 176 and the identifier is the one it was given.
\<close>

theorem Read_get_failure:
  assumes "ParseAzureResourceID m (d_Id s) = Inr rid"
    and "call_GetHybridConnection m s (ResourceGroup rid) (path_index (Path rid) ''sites'')
           (path_index (Path rid) ''hybridConnectionNamespaces'')
           (path_index (Path rid) ''relays'') = ((resp, Some e), s1)"
  shows "(ResponseWasNotFound (Response resp) \<longrightarrow>
            Read m s = (Return_nil, d_SetId [] s1) \<and> d_Id (snd (Read m s)) = [])
       \<and> (\<not> ResponseWasNotFound (Response resp) \<longrightarrow>
            Read m s = (Return_err
                          (Error_making_Read_request (path_index (Path rid) ''sites'')
                             (path_index (Path rid) ''hybridConnectionNamespaces'')
                             (ResourceGroup rid) e), s1)
            \<and> d_Id (snd (Read m s)) = d_Id s)"
proof -
  have "d_Id s1 = d_Id s"
    using call_GetHybridConnection_keeps_d(1) [OF assms(2)] .
  then show ?thesis
    using assms by (simp add: Read_def Let_def d_SetId_def)
qed

theorem Read_get_failure_witness:
  "ParseAzureResourceID (meta_get (failed_with 404)) (d_Id stored) = Inr example_ResourceID
   \<and> call_GetHybridConnection (meta_get (failed_with 404)) stored
        ''rg1'' ''site1'' ''ns1'' ''relay1''
      = (failed_with 404,
         after_call (Call_GetHybridConnection ''rg1'' ''site1'' ''ns1'' ''relay1'') stored)
   \<and> ResponseWasNotFound (Response (fst (failed_with 404)))
   \<and> Read (meta_get (failed_with 404)) stored
      = (Return_nil,
         d_SetId []
           (after_call (Call_GetHybridConnection ''rg1'' ''site1'' ''ns1'' ''relay1'') stored))
   \<and> d_Id (snd (Read (meta_get (failed_with 404)) stored)) = []
   \<and> \<not> ResponseWasNotFound (Response (fst (failed_with 500)))
   \<and> fst (Read (meta_get (failed_with 500)) stored)
      = Return_err (Error_making_Read_request ''site1'' ''ns1'' ''rg1''
                      ''web.AppsClient: responded with an error'')
   \<and> d_Id (snd (Read (meta_get (failed_with 500)) stored)) = example_id"
  using Read_get_failure
    [of "meta_get (failed_with 404)" stored example_ResourceID "fst (failed_with 404)"
        "''web.AppsClient: responded with an error''"
        "after_call (Call_GetHybridConnection ''rg1'' ''site1'' ''ns1'' ''relay1'') stored"]
    Read_get_failure
    [of "meta_get (failed_with 500)" stored example_ResourceID "fst (failed_with 500)"
        "''web.AppsClient: responded with an error''"
        "after_call (Call_GetHybridConnection ''rg1'' ''site1'' ''ns1'' ''relay1'') stored"]
  by (simp add: example_defs call_defs)

text \<open>
  C3. When the identifier parses, the get succeeds and the response carries the
  namespace and the send key name, so that ListKeys is called: Read returns nil
  whatever ListKeys answers. If ListKeys returns an error, \<^verbatim>\<open>send_key_value\<close> is what it
  was before Read and the warning of line 198 is the one line added to the log; if it
  returns none, \<^verbatim>\<open>send_key_value\<close> is set from the returned \<^verbatim>\<open>PrimaryKey\<close> pointer and nothing
  is logged.
\<close>

theorem Read_send_key_value:
  assumes "ParseAzureResourceID m (d_Id s) = Inr rid"
    and "call_GetHybridConnection m s (ResourceGroup rid) (path_index (Path rid) ''sites'')
           (path_index (Path rid) ''hybridConnectionNamespaces'')
           (path_index (Path rid) ''relays'') = ((resp, None), s1)"
    and "Properties resp = Some props"
    and "ServiceBusNamespace props = Some serviceBusNamespace"
    and "SendKeyName props = Some sendKeyName"
    and "ListKeys m (remote s1) (ResourceGroup rid) serviceBusNamespace sendKeyName
         = ((accessKeys, err), w)"
  shows "fst (Read m s) = Return_nil
       \<and> (err = Some e \<longrightarrow>
            d_attrs (snd (Read m s)) ''send_key_value'' = d_attrs s ''send_key_value''
            \<and> log_lines (snd (Read m s))
              = log_lines s @ [WARN_Unable_to_List_default_keys
                                 (path_index (Path rid) ''sites'') (ResourceGroup rid) e])
       \<and> (err = None \<longrightarrow>
            d_attrs (snd (Read m s)) ''send_key_value''
              = map_option VString (PrimaryKey accessKeys)
            \<and> log_lines (snd (Read m s)) = log_lines s)"
proof -
  note keep = call_GetHybridConnection_keeps_d [OF assms(2)]
  show ?thesis
  proof (cases err)
    case None
    with assms keep show ?thesis
      by (simp add: Read_def Let_def d_Set_def call_ListKeys_def)
  next
    case (Some e')
    with assms keep show ?thesis
      by (simp add: Read_def Let_def d_Set_def call_ListKeys_def log_Printf_def)
  qed
qed

theorem Read_send_key_value_witness:
  "ParseAzureResourceID (meta_keys (\<lparr>PrimaryKey = Some ''primary''\<rparr>, None)) (d_Id stored)
     = Inr example_ResourceID
   \<and> call_GetHybridConnection (meta_keys (\<lparr>PrimaryKey = Some ''primary''\<rparr>, None)) stored
        ''rg1'' ''site1'' ''ns1'' ''relay1''
      = (found, after_call (Call_GetHybridConnection ''rg1'' ''site1'' ''ns1'' ''relay1'') stored)
   \<and> Properties (fst found) = Some example_properties
   \<and> ServiceBusNamespace example_properties = Some ''ns1''
   \<and> SendKeyName example_properties = Some ''key1''
   \<and> fst (Read (meta_keys (\<lparr>PrimaryKey = Some ''primary''\<rparr>, None)) stored) = Return_nil
   \<and> d_attrs (snd (Read (meta_keys (\<lparr>PrimaryKey = Some ''primary''\<rparr>, None)) stored))
        ''send_key_value'' = Some (VString ''primary'')
   \<and> fst (Read (meta_keys (\<lparr>PrimaryKey = None\<rparr>, Some ''ListKeys failed'')) stored) = Return_nil
   \<and> d_attrs (snd (Read (meta_keys (\<lparr>PrimaryKey = None\<rparr>, Some ''ListKeys failed'')) stored))
        ''send_key_value'' = Some (VString ''secret'')
   \<and> log_lines (snd (Read (meta_keys (\<lparr>PrimaryKey = None\<rparr>, Some ''ListKeys failed'')) stored))
      = [WARN_Unable_to_List_default_keys ''site1'' ''rg1'' ''ListKeys failed'']"
  using Read_send_key_value
    [of "meta_keys (\<lparr>PrimaryKey = Some ''primary''\<rparr>, None)" stored example_ResourceID
        "fst found"
        "after_call (Call_GetHybridConnection ''rg1'' ''site1'' ''ns1'' ''relay1'') stored"
        example_properties "''ns1''" "''key1''" "\<lparr>PrimaryKey = Some ''primary''\<rparr>" None 2]
    Read_send_key_value
    [of "meta_keys (\<lparr>PrimaryKey = None\<rparr>, Some ''ListKeys failed'')" stored example_ResourceID
        "fst found"
        "after_call (Call_GetHybridConnection ''rg1'' ''site1'' ''ns1'' ''relay1'') stored"
        example_properties "''ns1''" "''key1''" "\<lparr>PrimaryKey = None\<rparr>"
        "Some ''ListKeys failed''" 2 "''ListKeys failed''"]
  by (simp add: example_defs call_defs)

text \<open>
  C10. When the identifier parses and the get succeeds with a response whose properties
  pointer is nil, or whose \<^verbatim>\<open>ServiceBusNamespace\<close> or \<^verbatim>\<open>SendKeyName\<close> pointer is nil, Read
  ends in the nil dereference of line 196: it returns neither nil nor an error.
\<close>

theorem Read_nil_dereference:
  assumes "ParseAzureResourceID m (d_Id s) = Inr rid"
    and "call_GetHybridConnection m s (ResourceGroup rid) (path_index (Path rid) ''sites'')
           (path_index (Path rid) ''hybridConnectionNamespaces'')
           (path_index (Path rid) ''relays'') = ((resp, None), s1)"
    and "Properties resp = None
         \<or> (\<exists>props. Properties resp = Some props
               \<and> (ServiceBusNamespace props = None \<or> SendKeyName props = None))"
  shows "fst (Read m s) = Panic_nil_dereference"
  using assms
  by (auto simp: Read_def Let_def split: option.splits)

theorem Read_nil_dereference_witness:
  "ParseAzureResourceID
     (meta_get (\<lparr>Response = Some \<lparr>StatusCode = 200\<rparr>, Properties = None,
                 ID = Some example_id\<rparr>, None))
     (d_Id stored) = Inr example_ResourceID
   \<and> call_GetHybridConnection
        (meta_get (\<lparr>Response = Some \<lparr>StatusCode = 200\<rparr>, Properties = None,
                    ID = Some example_id\<rparr>, None))
        stored ''rg1'' ''site1'' ''ns1'' ''relay1''
      = ((\<lparr>Response = Some \<lparr>StatusCode = 200\<rparr>, Properties = None, ID = Some example_id\<rparr>,
          None),
         after_call (Call_GetHybridConnection ''rg1'' ''site1'' ''ns1'' ''relay1'') stored)
   \<and> fst (Read
        (meta_get (\<lparr>Response = Some \<lparr>StatusCode = 200\<rparr>, Properties = None,
                    ID = Some example_id\<rparr>, None))
        stored) = Panic_nil_dereference
   \<and> fst (Read
        (meta_get (\<lparr>Response = Some \<lparr>StatusCode = 200\<rparr>,
                    Properties = Some (example_properties\<lparr>SendKeyName := None\<rparr>),
                    ID = Some example_id\<rparr>, None))
        stored) = Panic_nil_dereference"
  using Read_nil_dereference
    [of "meta_get (\<lparr>Response = Some \<lparr>StatusCode = 200\<rparr>, Properties = None,
                    ID = Some example_id\<rparr>, None)"
        stored example_ResourceID
        "\<lparr>Response = Some \<lparr>StatusCode = 200\<rparr>, Properties = None, ID = Some example_id\<rparr>"
        "after_call (Call_GetHybridConnection ''rg1'' ''site1'' ''ns1'' ''relay1'') stored"]
    Read_nil_dereference
    [of "meta_get (\<lparr>Response = Some \<lparr>StatusCode = 200\<rparr>,
                    Properties = Some (example_properties\<lparr>SendKeyName := None\<rparr>),
                    ID = Some example_id\<rparr>, None)"
        stored example_ResourceID
        "\<lparr>Response = Some \<lparr>StatusCode = 200\<rparr>,
          Properties = Some (example_properties\<lparr>SendKeyName := None\<rparr>),
          ID = Some example_id\<rparr>"
        "after_call (Call_GetHybridConnection ''rg1'' ''site1'' ''ns1'' ''relay1'') stored"]
  by (simp add: example_defs call_defs)

subsection \<open>Delete\<close>

text \<open>
  C1, as far as the source goes by design. When the identifier parses and the delete call
  returns no error, Delete returns nil whatever the response says, not found included.
\<close>

theorem Delete_without_error_returns_nil:
  assumes "ParseAzureResourceID m (d_Id s) = Inr rid"
    and "call_DeleteHybridConnection m s (ResourceGroup rid) (path_index (Path rid) ''sites'')
           (path_index (Path rid) ''hybridConnectionNamespaces'')
           (path_index (Path rid) ''relays'') = ((resp, None), s1)"
  shows "Delete m s = (Return_nil, s1)"
  using assms by (simp add: Delete_def Let_def)

theorem Delete_without_error_returns_nil_witness:
  "ParseAzureResourceID (meta_delete (Some \<lparr>StatusCode = 404\<rparr>, None)) (d_Id stored)
     = Inr example_ResourceID
   \<and> call_DeleteHybridConnection (meta_delete (Some \<lparr>StatusCode = 404\<rparr>, None)) stored
        ''rg1'' ''site1'' ''ns1'' ''relay1''
      = ((Some \<lparr>StatusCode = 404\<rparr>, None),
         after_call (Call_DeleteHybridConnection ''rg1'' ''site1'' ''ns1'' ''relay1'') stored)
   \<and> WasNotFound (Some \<lparr>StatusCode = 404\<rparr>)
   \<and> Delete (meta_delete (Some \<lparr>StatusCode = 404\<rparr>, None)) stored
      = (Return_nil,
         after_call (Call_DeleteHybridConnection ''rg1'' ''site1'' ''ns1'' ''relay1'') stored)"
  using Delete_without_error_returns_nil
    [of "meta_delete (Some \<lparr>StatusCode = 404\<rparr>, None)" stored example_ResourceID
        "Some \<lparr>StatusCode = 404\<rparr>"
        "after_call (Call_DeleteHybridConnection ''rg1'' ''site1'' ''ns1'' ''relay1'') stored"]
  by (simp add: example_defs call_defs)

text \<open>
  The sentence of the spec fails on both halves. With no error and a not-found
  response Delete returns nil, not an error; with an error and a not-found response
  Delete returns the error of line 225, so an error is not always dropped.
\<close>

theorem Delete_clean_not_found_counterexample:
  "ParseAzureResourceID (meta_delete (Some \<lparr>StatusCode = 404\<rparr>, None)) (d_Id stored)
     = Inr example_ResourceID
   \<and> DeleteHybridConnection (meta_delete (Some \<lparr>StatusCode = 404\<rparr>, None)) (remote stored)
        ''rg1'' ''site1'' ''ns1'' ''relay1'' = ((Some \<lparr>StatusCode = 404\<rparr>, None), 1)
   \<and> WasNotFound (Some \<lparr>StatusCode = 404\<rparr>)
   \<and> fst (Delete (meta_delete (Some \<lparr>StatusCode = 404\<rparr>, None)) stored) = Return_nil
   \<and> DeleteHybridConnection (meta_delete (Some \<lparr>StatusCode = 404\<rparr>, Some ''not found''))
        (remote stored) ''rg1'' ''site1'' ''ns1'' ''relay1''
      = ((Some \<lparr>StatusCode = 404\<rparr>, Some ''not found''), 1)
   \<and> fst (Delete (meta_delete (Some \<lparr>StatusCode = 404\<rparr>, Some ''not found'')) stored)
      = Return_err (Error_deleting ''site1'' ''rg1'' ''relay1'' ''not found'')"
  by (simp add: example_defs call_defs Delete_def Let_def)

text \<open>
  The two branches of lines 222 to 225, taken when the delete call returns an error: the
  error is returned as the error of line 225 when the response was not found, and is
  dropped otherwise. Read, at lines 172 to 176, tests the same condition without the
  negation.
\<close>

lemma Delete_error_and_not_found:
  assumes "ParseAzureResourceID m (d_Id s) = Inr rid"
    and "call_DeleteHybridConnection m s (ResourceGroup rid) (path_index (Path rid) ''sites'')
           (path_index (Path rid) ''hybridConnectionNamespaces'')
           (path_index (Path rid) ''relays'') = ((resp, Some e), s1)"
    and "WasNotFound resp"
  shows "Delete m s = (Return_err (Error_deleting (path_index (Path rid) ''sites'')
                         (ResourceGroup rid) (path_index (Path rid) ''relays'') e), s1)"
  using assms by (simp add: Delete_def Let_def)

lemma Delete_other_error_dropped:
  assumes "ParseAzureResourceID m (d_Id s) = Inr rid"
    and "call_DeleteHybridConnection m s (ResourceGroup rid) (path_index (Path rid) ''sites'')
           (path_index (Path rid) ''hybridConnectionNamespaces'')
           (path_index (Path rid) ''relays'') = ((resp, Some e), s1)"
    and "\<not> WasNotFound resp"
  shows "Delete m s = (Return_nil, s1)"
  using assms by (simp add: Delete_def Let_def)

subsection \<open>CreateUpdate\<close>

text \<open>
  When \<^verbatim>\<open>relay_id\<close> parses, control leaves the import check without an error, and the
  upsert returns no error and an identifier: CreateUpdate stores that identifier with
  \<^verbatim>\<open>d.SetId\<close> and its result is the result of Read on the state so reached.
\<close>

lemma CreateUpdate_sets_id_then_reads:
  assumes "ParseHybridConnectionID m (d_Get_string s ''relay_id'') = Inr relayId"
    and "import_check m s (d_Get_string s ''resource_group_name'')
           (d_Get_string s ''app_service_name'') (NamespaceName relayId) (Name relayId)
         = (None, s1)"
    and "call_CreateOrUpdateHybridConnection m s1 (d_Get_string s ''resource_group_name'')
           (d_Get_string s ''app_service_name'') (NamespaceName relayId) (Name relayId)
           (connectionEnvelope s1 (Name relayId) (d_Get_string s ''relay_id''))
         = ((hybridConnection, None), s2)"
    and "ID hybridConnection = Some i"
  shows "CreateUpdate m s = Read m (d_SetId i s2) \<and> d_Id (d_SetId i s2) = i"
  using assms by (simp add: CreateUpdate_def Let_def d_SetId_def)

lemma CreateUpdate_sets_id_then_reads_example:
  "ParseHybridConnectionID (meta_import absent_then_found found)
     (d_Get_string declared ''relay_id'') = Inr example_relayId
   \<and> import_check (meta_import absent_then_found found) declared ''rg1'' ''site1'' ''ns1''
        ''relay1''
      = (None, after_call (Call_GetHybridConnection ''rg1'' ''site1'' ''ns1'' ''relay1'') declared)
   \<and> ID (fst found) = Some example_id
   \<and> CreateUpdate (meta_import absent_then_found found) declared
      = Read (meta_import absent_then_found found)
          (d_SetId example_id
             (after_call
                (Call_CreateOrUpdateHybridConnection ''rg1'' ''site1'' ''ns1'' ''relay1''
                   (connectionEnvelope declared ''relay1'' example_relay_id))
                (after_call (Call_GetHybridConnection ''rg1'' ''site1'' ''ns1'' ''relay1'')
                   declared)))
   \<and> fst (CreateUpdate (meta_import absent_then_found found) declared) = Return_nil
   \<and> d_Id (snd (CreateUpdate (meta_import absent_then_found found) declared)) = example_id"
  using CreateUpdate_sets_id_then_reads
    [of "meta_import absent_then_found found" declared example_relayId
        "after_call (Call_GetHybridConnection ''rg1'' ''site1'' ''ns1'' ''relay1'') declared"
        "fst found"
        "after_call
           (Call_CreateOrUpdateHybridConnection ''rg1'' ''site1'' ''ns1'' ''relay1''
              (connectionEnvelope declared ''relay1'' example_relay_id))
           (after_call (Call_GetHybridConnection ''rg1'' ''site1'' ''ns1'' ''relay1'') declared)"
        example_id]
  by (simp add: example_defs call_defs import_check_def connectionEnvelope_def Read_def Let_def)


text \<open>
  An upsert that returns no error and a nil \<^verbatim>\<open>ID\<close> pointer leaves nothing for line 152 to
  dereference.
\<close>

lemma CreateUpdate_nil_ID:
  assumes "ParseHybridConnectionID m (d_Get_string s ''relay_id'') = Inr relayId"
    and "import_check m s (d_Get_string s ''resource_group_name'')
           (d_Get_string s ''app_service_name'') (NamespaceName relayId) (Name relayId)
         = (None, s1)"
    and "call_CreateOrUpdateHybridConnection m s1 (d_Get_string s ''resource_group_name'')
           (d_Get_string s ''app_service_name'') (NamespaceName relayId) (Name relayId)
           (connectionEnvelope s1 (Name relayId) (d_Get_string s ''relay_id''))
         = ((hybridConnection, None), s2)"
    and "ID hybridConnection = None"
  shows "CreateUpdate m s = (Panic_nil_dereference, s2)"
  using assms by (simp add: CreateUpdate_def Let_def)

text \<open>
  C4 at an upsert that succeeds without an identifier. The relay reference parses, the
  pre-check get finds nothing, and the upsert returns no error and a nil \<^verbatim>\<open>ID\<close>:
  CreateUpdate ends in the nil dereference of line 152. The identifier is still empty
  and the get and the upsert are the only remote calls made, so nothing has been
  written as the handle and Read has not been invoked.
\<close>

theorem CreateUpdate_upsert_without_ID_panics:
  "ParseHybridConnectionID (meta_import absent_then_found upserted_without_ID)
     (d_Get_string declared ''relay_id'') = Inr example_relayId
   \<and> import_check (meta_import absent_then_found upserted_without_ID) declared
        ''rg1'' ''site1'' ''ns1'' ''relay1''
      = (None, after_call (Call_GetHybridConnection ''rg1'' ''site1'' ''ns1'' ''relay1'') declared)
   \<and> snd (fst (call_CreateOrUpdateHybridConnection
                  (meta_import absent_then_found upserted_without_ID)
                  (after_call (Call_GetHybridConnection ''rg1'' ''site1'' ''ns1'' ''relay1'')
                     declared)
                  ''rg1'' ''site1'' ''ns1'' ''relay1''
                  (connectionEnvelope declared ''relay1'' example_relay_id))) = None
   \<and> fst (CreateUpdate (meta_import absent_then_found upserted_without_ID) declared)
      = Panic_nil_dereference
   \<and> d_Id (snd (CreateUpdate (meta_import absent_then_found upserted_without_ID) declared)) = []
   \<and> calls (snd (CreateUpdate (meta_import absent_then_found upserted_without_ID) declared))
      = [Call_GetHybridConnection ''rg1'' ''site1'' ''ns1'' ''relay1'',
         Call_CreateOrUpdateHybridConnection ''rg1'' ''site1'' ''ns1'' ''relay1''
           (connectionEnvelope declared ''relay1'' example_relay_id)]"
  by (simp add: example_defs call_defs import_check_def connectionEnvelope_def
        CreateUpdate_def Let_def)

text \<open>
  C5. CreateUpdate returns an error and leaves the identifier and the attributes as
  they were in each of the three cases: \<^verbatim>\<open>relay_id\<close> does not parse; the import check
  returns an error; the upsert returns an error.
\<close>

theorem CreateUpdate_failure_keeps_identifier:
  "(ParseHybridConnectionID m (d_Get_string s ''relay_id'') = Inl e \<longrightarrow>
      fst (CreateUpdate m s)
        = Return_err (Error_parsing_relay_ID (d_Get_string s ''relay_id'') e)
      \<and> d_Id (snd (CreateUpdate m s)) = d_Id s
      \<and> d_attrs (snd (CreateUpdate m s)) = d_attrs s)
   \<and> (ParseHybridConnectionID m (d_Get_string s ''relay_id'') = Inr relayId
      \<and> import_check m s (d_Get_string s ''resource_group_name'')
           (d_Get_string s ''app_service_name'') (NamespaceName relayId) (Name relayId)
         = (Some failure, s1) \<longrightarrow>
      fst (CreateUpdate m s) = Return_err failure
      \<and> d_Id (snd (CreateUpdate m s)) = d_Id s
      \<and> d_attrs (snd (CreateUpdate m s)) = d_attrs s)
   \<and> (ParseHybridConnectionID m (d_Get_string s ''relay_id'') = Inr relayId
      \<and> import_check m s (d_Get_string s ''resource_group_name'')
           (d_Get_string s ''app_service_name'') (NamespaceName relayId) (Name relayId)
         = (None, s1)
      \<and> call_CreateOrUpdateHybridConnection m s1 (d_Get_string s ''resource_group_name'')
           (d_Get_string s ''app_service_name'') (NamespaceName relayId) (Name relayId)
           (connectionEnvelope s1 (Name relayId) (d_Get_string s ''relay_id''))
         = ((hybridConnection, Some e'), s2) \<longrightarrow>
      fst (CreateUpdate m s)
        = Return_err (Error_creating (d_Get_string s ''app_service_name'')
                        (d_Get_string s ''resource_group_name'') e')
      \<and> d_Id (snd (CreateUpdate m s)) = d_Id s
      \<and> d_attrs (snd (CreateUpdate m s)) = d_attrs s)"
proof (intro conjI impI)
  assume "ParseHybridConnectionID m (d_Get_string s ''relay_id'') = Inl e"
  then have "CreateUpdate m s
             = (Return_err (Error_parsing_relay_ID (d_Get_string s ''relay_id'') e), s)"
    by (simp add: CreateUpdate_def)
  then show "fst (CreateUpdate m s)
             = Return_err (Error_parsing_relay_ID (d_Get_string s ''relay_id'') e)"
    and "d_Id (snd (CreateUpdate m s)) = d_Id s"
    and "d_attrs (snd (CreateUpdate m s)) = d_attrs s"
    by simp_all
next
  assume a: "ParseHybridConnectionID m (d_Get_string s ''relay_id'') = Inr relayId
      \<and> import_check m s (d_Get_string s ''resource_group_name'')
           (d_Get_string s ''app_service_name'') (NamespaceName relayId) (Name relayId)
         = (Some failure, s1)"
  then have "CreateUpdate m s = (Return_err failure, s1)"
    by (simp add: CreateUpdate_def Let_def)
  moreover have "d_Id s1 = d_Id s" "d_attrs s1 = d_attrs s"
    using a import_check_keeps_d by blast+
  ultimately show "fst (CreateUpdate m s) = Return_err failure"
    and "d_Id (snd (CreateUpdate m s)) = d_Id s"
    and "d_attrs (snd (CreateUpdate m s)) = d_attrs s"
    by simp_all
next
  assume a: "ParseHybridConnectionID m (d_Get_string s ''relay_id'') = Inr relayId
      \<and> import_check m s (d_Get_string s ''resource_group_name'')
           (d_Get_string s ''app_service_name'') (NamespaceName relayId) (Name relayId)
         = (None, s1)
      \<and> call_CreateOrUpdateHybridConnection m s1 (d_Get_string s ''resource_group_name'')
           (d_Get_string s ''app_service_name'') (NamespaceName relayId) (Name relayId)
           (connectionEnvelope s1 (Name relayId) (d_Get_string s ''relay_id''))
         = ((hybridConnection, Some e'), s2)"
  then have "CreateUpdate m s
             = (Return_err (Error_creating (d_Get_string s ''app_service_name'')
                              (d_Get_string s ''resource_group_name'') e'), s2)"
    by (simp add: CreateUpdate_def Let_def)
  moreover have "d_Id s1 = d_Id s" "d_attrs s1 = d_attrs s"
    using a import_check_keeps_d by blast+
  moreover have "d_Id s2 = d_Id s1" "d_attrs s2 = d_attrs s1"
    using a call_CreateOrUpdateHybridConnection_keeps_d by blast+
  ultimately show "fst (CreateUpdate m s)
             = Return_err (Error_creating (d_Get_string s ''app_service_name'')
                             (d_Get_string s ''resource_group_name'') e')"
    and "d_Id (snd (CreateUpdate m s)) = d_Id s"
    and "d_attrs (snd (CreateUpdate m s)) = d_attrs s"
    by simp_all
qed


theorem CreateUpdate_failure_keeps_identifier_witness:
  "ParseHybridConnectionID (meta_import absent_then_found found)
     (d_Get_string (example_state [] ''relay1'' True) ''relay_id'') = Inl ''Cannot parse relay ID''
   \<and> fst (CreateUpdate (meta_import absent_then_found found) (example_state [] ''relay1'' True))
      = Return_err (Error_parsing_relay_ID ''relay1'' ''Cannot parse relay ID'')
   \<and> d_Id (snd (CreateUpdate (meta_import absent_then_found found)
                  (example_state [] ''relay1'' True))) = []
   \<and> import_check (meta_import (\<lambda>_. found) found) declared ''rg1'' ''site1'' ''ns1'' ''relay1''
      = (Some (ImportAsExistsError ''azurerm_app_service_hybrid_connection'' example_id),
         after_call (Call_GetHybridConnection ''rg1'' ''site1'' ''ns1'' ''relay1'') declared)
   \<and> fst (CreateUpdate (meta_import (\<lambda>_. found) found) declared)
      = Return_err (ImportAsExistsError ''azurerm_app_service_hybrid_connection'' example_id)
   \<and> d_Id (snd (CreateUpdate (meta_import (\<lambda>_. found) found) declared)) = []
   \<and> fst (CreateUpdate (meta_import absent_then_found (failed_with 500)) declared)
      = Return_err (Error_creating ''site1'' ''rg1'' ''web.AppsClient: responded with an error'')
   \<and> d_Id (snd (CreateUpdate (meta_import absent_then_found (failed_with 500)) declared)) = []"
  using CreateUpdate_failure_keeps_identifier
    [where m = "meta_import absent_then_found found"
       and s = "example_state [] ''relay1'' True" and e = "''Cannot parse relay ID''"]
    CreateUpdate_failure_keeps_identifier
    [where m = "meta_import (\<lambda>_. found) found" and s = declared
       and relayId = example_relayId
       and failure = "ImportAsExistsError ''azurerm_app_service_hybrid_connection'' example_id"
       and ?s1.0 = "after_call (Call_GetHybridConnection ''rg1'' ''site1'' ''ns1'' ''relay1'')
                      declared"]
    CreateUpdate_failure_keeps_identifier
    [where m = "meta_import absent_then_found (failed_with 500)" and s = declared
       and relayId = example_relayId
       and ?s1.0 = "after_call (Call_GetHybridConnection ''rg1'' ''site1'' ''ns1'' ''relay1'')
                      declared"
       and hybridConnection = "fst (failed_with 500)"
       and e' = "''web.AppsClient: responded with an error''"
       and ?s2.0 = "after_call
                      (Call_CreateOrUpdateHybridConnection ''rg1'' ''site1'' ''ns1'' ''relay1''
                         (connectionEnvelope declared ''relay1'' example_relay_id))
                      (after_call (Call_GetHybridConnection ''rg1'' ''site1'' ''ns1'' ''relay1'')
                         declared)"]
  by (simp add: example_defs call_defs import_check_def connectionEnvelope_def Let_def)

text \<open>Once the import check is passed, the next remote call is the upsert.\<close>

lemma CreateUpdate_after_import_check:
  assumes "ParseHybridConnectionID m (d_Get_string s ''relay_id'') = Inr relayId"
    and "import_check m s (d_Get_string s ''resource_group_name'')
           (d_Get_string s ''app_service_name'') (NamespaceName relayId) (Name relayId)
         = (None, s1)"
  shows "\<exists>rest. calls (snd (CreateUpdate m s))
           = calls s1 @ Call_CreateOrUpdateHybridConnection
                          (d_Get_string s ''resource_group_name'')
                          (d_Get_string s ''app_service_name'') (NamespaceName relayId)
                          (Name relayId)
                          (connectionEnvelope s1 (Name relayId) (d_Get_string s ''relay_id''))
                        # rest"
proof -
  obtain hc err s2 where up:
    "call_CreateOrUpdateHybridConnection m s1 (d_Get_string s ''resource_group_name'')
       (d_Get_string s ''app_service_name'') (NamespaceName relayId) (Name relayId)
       (connectionEnvelope s1 (Name relayId) (d_Get_string s ''relay_id''))
     = ((hc, err), s2)"
    by (metis surj_pair)
  note c2 = call_CreateOrUpdateHybridConnection_keeps_d(3) [OF up]
  show ?thesis
  proof (cases err)
    case (Some e)
    with assms up c2 show ?thesis
      by (simp add: CreateUpdate_def Let_def)
  next
    case None
    show ?thesis
    proof (cases "ID hc")
      case None
      with assms up c2 \<open>err = None\<close> show ?thesis
        by (simp add: CreateUpdate_def Let_def)
    next
      case (Some i)
      obtain rest where "calls (snd (Read m (d_SetId i s2))) = calls (d_SetId i s2) @ rest"
        using Read_extends_calls by blast
      with assms up c2 \<open>err = None\<close> Some show ?thesis
        by (simp add: CreateUpdate_def Let_def d_SetId_def)
    qed
  qed
qed

text \<open>
  C7. On a new resource with import detection on and a \<^verbatim>\<open>relay_id\<close> that parses, the
  first remote call is the pre-check get. If that get did not fail, or failed with
  not found, and its result carries a non-empty identifier, CreateUpdate returns
  \<^verbatim>\<open>ImportAsExistsError\<close> with that identifier; if it failed with a response other than
  not found, CreateUpdate returns the error of line 123; if it did not fail, or failed
  with not found, and carries no identifier or an empty one, the next remote call is
  the upsert.
\<close>

theorem import_check_on_new_resource:
  assumes "ShouldResourcesBeImported m" and "d_IsNewResource s"
    and "ParseHybridConnectionID m (d_Get_string s ''relay_id'') = Inr relayId"
    and "call_GetHybridConnection m s (d_Get_string s ''resource_group_name'')
           (d_Get_string s ''app_service_name'') (NamespaceName relayId) (Name relayId)
         = ((existing, err), s1)"
  shows "calls s1 = calls s @ [Call_GetHybridConnection (d_Get_string s ''resource_group_name'')
                                 (d_Get_string s ''app_service_name'') (NamespaceName relayId)
                                 (Name relayId)]
       \<and> (\<exists>rest. calls (snd (CreateUpdate m s)) = calls s1 @ rest)
       \<and> ((err = None \<or> ResponseWasNotFound (Response existing))
            \<and> ID existing = Some i \<and> i \<noteq> [] \<longrightarrow>
          CreateUpdate m s
            = (Return_err (ImportAsExistsError ''azurerm_app_service_hybrid_connection'' i), s1))
       \<and> (err = Some e \<and> \<not> ResponseWasNotFound (Response existing) \<longrightarrow>
          CreateUpdate m s
            = (Return_err (Error_checking_for_presence (d_Get_string s ''app_service_name'')
                             (d_Get_string s ''resource_group_name'') (NamespaceName relayId)
                             (Name relayId) e), s1))
       \<and> ((err = None \<or> ResponseWasNotFound (Response existing))
            \<and> (ID existing = None \<or> ID existing = Some []) \<longrightarrow>
          (\<exists>rest. calls (snd (CreateUpdate m s))
             = calls s1 @ Call_CreateOrUpdateHybridConnection
                            (d_Get_string s ''resource_group_name'')
                            (d_Get_string s ''app_service_name'') (NamespaceName relayId)
                            (Name relayId)
                            (connectionEnvelope s1 (Name relayId) (d_Get_string s ''relay_id''))
                          # rest))"
proof -
  let ?rg = "d_Get_string s ''resource_group_name''"
  let ?name = "d_Get_string s ''app_service_name''"
  have c1: "calls s1 = calls s @ [Call_GetHybridConnection ?rg ?name (NamespaceName relayId)
                                    (Name relayId)]"
    using call_GetHybridConnection_keeps_d(5) [OF assms(4)] .
  have exists: "CreateUpdate m s
                = (Return_err (ImportAsExistsError ''azurerm_app_service_hybrid_connection'' i), s1)"
    if "err = None \<or> ResponseWasNotFound (Response existing)" "ID existing = Some i" "i \<noteq> []"
    using that assms
    by (auto simp: CreateUpdate_def Let_def import_check_def split: option.splits)
  have failed: "CreateUpdate m s
                = (Return_err (Error_checking_for_presence ?name ?rg (NamespaceName relayId)
                                 (Name relayId) e), s1)"
    if "err = Some e" "\<not> ResponseWasNotFound (Response existing)"
    using that assms
    by (simp add: CreateUpdate_def Let_def import_check_def)
  have passes: "import_check m s ?rg ?name (NamespaceName relayId) (Name relayId) = (None, s1)"
    if "err = None \<or> ResponseWasNotFound (Response existing)"
      "ID existing = None \<or> ID existing = Some []"
    using that assms
    by (auto simp: import_check_def Let_def split: option.splits)
  have proceeds: "\<exists>rest. calls (snd (CreateUpdate m s))
             = calls s1 @ Call_CreateOrUpdateHybridConnection ?rg ?name (NamespaceName relayId)
                            (Name relayId)
                            (connectionEnvelope s1 (Name relayId) (d_Get_string s ''relay_id''))
                          # rest"
    if "err = None \<or> ResponseWasNotFound (Response existing)"
      "ID existing = None \<or> ID existing = Some []"
    using CreateUpdate_after_import_check [OF assms(3) passes [OF that]] .
  have extends: "\<exists>rest. calls (snd (CreateUpdate m s)) = calls s1 @ rest"
  proof (cases err)
    case None
    show ?thesis
    proof (cases "ID existing = None \<or> ID existing = Some []")
      case True
      with proceeds None show ?thesis by auto
    next
      case False
      then obtain j where "ID existing = Some j" "j \<noteq> []" by auto
      with assms None show ?thesis
        by (auto simp: CreateUpdate_def Let_def import_check_def)
    qed
  next
    case (Some e')
    show ?thesis
    proof (cases "ResponseWasNotFound (Response existing)")
      case False
      with assms Some show ?thesis
        by (simp add: CreateUpdate_def Let_def import_check_def)
    next
      case True
      show ?thesis
      proof (cases "ID existing = None \<or> ID existing = Some []")
        case True
        with proceeds \<open>ResponseWasNotFound (Response existing)\<close> show ?thesis by auto
      next
        case False
        then obtain j where "ID existing = Some j" "j \<noteq> []" by auto
        with assms Some True show ?thesis
          by (auto simp: CreateUpdate_def Let_def import_check_def)
      qed
    qed
  qed
  from c1 extends exists failed proceeds show ?thesis by blast
qed

theorem import_check_on_new_resource_witness:
  "ShouldResourcesBeImported (meta_import (\<lambda>_. found) found) \<and> d_IsNewResource declared
   \<and> ParseHybridConnectionID (meta_import (\<lambda>_. found) found)
        (d_Get_string declared ''relay_id'') = Inr example_relayId
   \<and> call_GetHybridConnection (meta_import (\<lambda>_. found) found) declared
        ''rg1'' ''site1'' ''ns1'' ''relay1''
      = (found, after_call (Call_GetHybridConnection ''rg1'' ''site1'' ''ns1'' ''relay1'') declared)
   \<and> CreateUpdate (meta_import (\<lambda>_. found) found) declared
      = (Return_err (ImportAsExistsError ''azurerm_app_service_hybrid_connection'' example_id),
         after_call (Call_GetHybridConnection ''rg1'' ''site1'' ''ns1'' ''relay1'') declared)
   \<and> CreateUpdate (meta_import (\<lambda>_. failed_with 500) found) declared
      = (Return_err (Error_checking_for_presence ''site1'' ''rg1'' ''ns1'' ''relay1''
                       ''web.AppsClient: responded with an error''),
         after_call (Call_GetHybridConnection ''rg1'' ''site1'' ''ns1'' ''relay1'') declared)
   \<and> ResponseWasNotFound (Response (fst (failed_with 404)))
   \<and> (\<exists>rest. calls (snd (CreateUpdate (meta_import absent_then_found found) declared))
         = Call_GetHybridConnection ''rg1'' ''site1'' ''ns1'' ''relay1''
           # Call_CreateOrUpdateHybridConnection ''rg1'' ''site1'' ''ns1'' ''relay1''
               (connectionEnvelope declared ''relay1'' example_relay_id)
           # rest)"
  using import_check_on_new_resource
    [where m = "meta_import (\<lambda>_. found) found" and s = declared
       and relayId = example_relayId and existing = "fst found" and err = None
       and ?s1.0 = "after_call (Call_GetHybridConnection ''rg1'' ''site1'' ''ns1'' ''relay1'')
                      declared"
       and i = example_id]
    import_check_on_new_resource
    [where m = "meta_import (\<lambda>_. failed_with 500) found" and s = declared
       and relayId = example_relayId and existing = "fst (failed_with 500)"
       and err = "Some ''web.AppsClient: responded with an error''"
       and ?s1.0 = "after_call (Call_GetHybridConnection ''rg1'' ''site1'' ''ns1'' ''relay1'')
                      declared"
       and e = "''web.AppsClient: responded with an error''"]
    import_check_on_new_resource
    [where m = "meta_import absent_then_found found" and s = declared
       and relayId = example_relayId and existing = "fst (failed_with 404)"
       and err = "Some ''web.AppsClient: responded with an error''"
       and ?s1.0 = "after_call (Call_GetHybridConnection ''rg1'' ''site1'' ''ns1'' ''relay1'')
                      declared"]
  by (simp add: example_defs call_defs connectionEnvelope_def)

subsection \<open>The validator of \<^verbatim>\<open>service_bus_namespace\<close>\<close>

text \<open>Matching one class with its bounds splits the text into a run and a rest.\<close>

lemma match_atoms_Cons:
  "match_atoms (Atom cls lo hi # rest) s
   \<longleftrightarrow> (\<exists>u v. s = u @ v \<and> lo \<le> length u \<and> length u \<le> hi \<and> list_all (in_class cls) u
              \<and> match_atoms rest v)"
proof
  assume "match_atoms (Atom cls lo hi # rest) s"
  then obtain n where "lo \<le> n" "n \<le> hi" "n \<le> length s"
    "list_all (in_class cls) (take n s)" "match_atoms rest (drop n s)"
    by (auto simp: list_ex_iff)
  then have "s = take n s @ drop n s \<and> lo \<le> length (take n s) \<and> length (take n s) \<le> hi
             \<and> list_all (in_class cls) (take n s) \<and> match_atoms rest (drop n s)"
    by simp
  then show "\<exists>u v. s = u @ v \<and> lo \<le> length u \<and> length u \<le> hi \<and> list_all (in_class cls) u
              \<and> match_atoms rest v"
    by blast
next
  assume "\<exists>u v. s = u @ v \<and> lo \<le> length u \<and> length u \<le> hi \<and> list_all (in_class cls) u
              \<and> match_atoms rest v"
  then obtain u v where "s = u @ v" "lo \<le> length u" "length u \<le> hi"
    "list_all (in_class cls) u" "match_atoms rest v"
    by blast
  then show "match_atoms (Atom cls lo hi # rest) s"
    by (auto simp: list_ex_iff intro!: bexI [of _ "length u"])
qed

lemma in_class_letter:
  "in_class [Range CHR ''a'' CHR ''z'', Range CHR ''A'' CHR ''Z''] c = spec_letter c"
  by (simp add: in_class_def spec_letter_def)

lemma in_class_letter_digit:
  "in_class [Range CHR ''a'' CHR ''z'', Range CHR ''A'' CHR ''Z'', Range CHR ''0'' CHR ''9''] c
   = (spec_letter c \<or> spec_digit c)"
  by (simp add: in_class_def spec_letter_def spec_digit_def)

lemma in_class_letter_digit_hyphen:
  "in_class [Single CHR ''-'', Range CHR ''a'' CHR ''z'', Range CHR ''A'' CHR ''Z'',
             Range CHR ''0'' CHR ''9''] c
   = (spec_letter c \<or> spec_digit c \<or> c = CHR ''-'')"
  by (auto simp: in_class_def spec_letter_def spec_digit_def)


lemma match_service_bus_namespace:
  "MatchString service_bus_namespace_regexp s
   \<longleftrightarrow> (\<exists>a mid z. s = a # mid @ [z] \<and> spec_letter a \<and> length mid \<le> 100
          \<and> list_all (\<lambda>c. spec_letter c \<or> spec_digit c \<or> c = CHR ''-'') mid
          \<and> (spec_letter z \<or> spec_digit z))"
  (is "?lhs \<longleftrightarrow> ?rhs")
proof
  assume ?lhs
  then obtain u1 u2 u3 where s: "s = u1 @ u2 @ u3"
    and u1: "length u1 = 1" "list_all spec_letter u1"
    and u2: "length u2 \<le> 100"
      "list_all (\<lambda>c. spec_letter c \<or> spec_digit c \<or> c = CHR ''-'') u2"
    and u3: "length u3 = 1" "list_all (\<lambda>c. spec_letter c \<or> spec_digit c) u3"
    unfolding service_bus_namespace_regexp_def MatchString.simps match_atoms_Cons
      match_atoms.simps(1) in_class_letter in_class_letter_digit in_class_letter_digit_hyphen
    by (auto simp: le_antisym)
  from u1 obtain a where a: "u1 = [a]" "spec_letter a"
    by (cases u1) auto
  from u3 obtain z where z: "u3 = [z]" "spec_letter z \<or> spec_digit z"
    by (cases u3) auto
  from s a z u2 show ?rhs by auto
next
  assume ?rhs
  then obtain a mid z where s: "s = a # mid @ [z]" and a: "spec_letter a"
    and mid: "length mid \<le> 100"
      "list_all (\<lambda>c. spec_letter c \<or> spec_digit c \<or> c = CHR ''-'') mid"
    and z: "spec_letter z \<or> spec_digit z"
    by blast
  have 3: "match_atoms
             [Atom [Range CHR ''a'' CHR ''z'', Range CHR ''A'' CHR ''Z'',
                    Range CHR ''0'' CHR ''9''] 1 1] [z]"
    unfolding match_atoms_Cons match_atoms.simps(1) in_class_letter_digit
    using z by (intro exI [of _ "[z]"] exI [of _ "[]"]) simp
  have 2: "match_atoms
             [Atom [Single CHR ''-'', Range CHR ''a'' CHR ''z'', Range CHR ''A'' CHR ''Z'',
                    Range CHR ''0'' CHR ''9''] 0 100,
              Atom [Range CHR ''a'' CHR ''z'', Range CHR ''A'' CHR ''Z'',
                    Range CHR ''0'' CHR ''9''] 1 1] (mid @ [z])"
    unfolding match_atoms_Cons [of _ 0 100] in_class_letter_digit_hyphen
    using mid 3 by (intro exI [of _ mid] exI [of _ "[z]"]) simp
  show ?lhs
    unfolding service_bus_namespace_regexp_def MatchString.simps
      match_atoms_Cons [of _ 1 1 "_ # _ # _"] in_class_letter
    using a 2 s by (intro exI [of _ "[a]"] exI [of _ "mid @ [z]"]) simp
qed

lemma spec_service_bus_namespace_iff:
  "spec_service_bus_namespace s
   \<longleftrightarrow> (\<exists>a mid z. s = a # mid @ [z] \<and> spec_letter a \<and> length mid \<le> 100
          \<and> list_all (\<lambda>c. spec_letter c \<or> spec_digit c \<or> c = CHR ''-'') mid
          \<and> (spec_letter z \<or> spec_digit z))"
  (is "?lhs \<longleftrightarrow> ?rhs")
proof
  assume l: ?lhs
  then have len: "2 \<le> length s" "length s \<le> 102"
    by (simp_all add: spec_service_bus_namespace_def)
  then obtain a t where at: "s = a # t" "t \<noteq> []"
    by (cases s) fastforce+
  then have t: "t = butlast t @ [last t]" by simp
  from at have s: "s = a # butlast t @ [last t]" by simp
  have last: "spec_letter (last t) \<or> spec_digit (last t)"
    using l at by (simp add: spec_service_bus_namespace_def)
  have hd: "spec_letter a"
    using l at by (simp add: spec_service_bus_namespace_def)
  have "list_all (\<lambda>c. spec_letter c \<or> spec_digit c \<or> c = CHR ''-'') t"
    using l at by (simp add: spec_service_bus_namespace_def)
  then have mid: "list_all (\<lambda>c. spec_letter c \<or> spec_digit c \<or> c = CHR ''-'') (butlast t)"
    by (auto simp: list_all_iff dest: in_set_butlastD)
  have short: "length (butlast t) \<le> 100" using len at by simp
  from s hd short mid last show ?rhs by blast
next
  assume ?rhs
  then show ?lhs
    by (auto simp: spec_service_bus_namespace_def)
qed


text \<open>
  C8. The validator reports no error for a string exactly when the string starts with a
  letter, contains only letters, digits and hyphens, ends with a letter or a digit and
  has a length from 2 to 102; and a declared value that fails this is rejected with an
  error and the state as it was, CreateUpdate not having been invoked, so that no remote
  call has been made.
\<close>

theorem service_bus_namespace_validation:
  "(snd (service_bus_namespace_ValidateFunc (VString v) k) = []
      \<longleftrightarrow> spec_service_bus_namespace v)
   \<and> (\<not> spec_service_bus_namespace (d_Get_string s ''service_bus_namespace'') \<longrightarrow>
        (\<exists>errs. errs \<noteq> [] \<and> validated_CreateUpdate m s = Rejected errs s))"
proof -
  have m: "MatchString service_bus_namespace_regexp x = spec_service_bus_namespace x" for x
    using match_service_bus_namespace [of x] spec_service_bus_namespace_iff [of x] by blast
  show ?thesis
    by (simp add: service_bus_namespace_ValidateFunc_def StringMatch_def
        validated_CreateUpdate_def m)
qed

theorem service_bus_namespace_validation_witness:
  "snd (service_bus_namespace_ValidateFunc (VString ''ns1'') ''service_bus_namespace'') = []
   \<and> spec_service_bus_namespace ''ns1''
   \<and> d_Get_string misnamed ''service_bus_namespace'' = ''1_ns''
   \<and> \<not> spec_service_bus_namespace ''1_ns''
   \<and> (\<exists>errs. errs \<noteq> [] \<and> validated_CreateUpdate (meta_import absent_then_found found) misnamed
                              = Rejected errs misnamed)"
proof -
  have ok: "spec_service_bus_namespace ''ns1''"
    by (simp add: spec_service_bus_namespace_def spec_letter_def spec_digit_def)
  have name: "d_Get_string misnamed ''service_bus_namespace'' = ''1_ns''"
    by (simp add: misnamed_def d_Get_string_def d_Set_def)
  have bad: "\<not> spec_service_bus_namespace ''1_ns''"
    by (simp add: spec_service_bus_namespace_def spec_letter_def spec_digit_def)
  from ok name bad
    service_bus_namespace_validation
      [of "''ns1''" "''service_bus_namespace''" misnamed "meta_import absent_then_found found"]
  show ?thesis by simp
qed

end
